theory Spec2Isabelle
  imports Complex_Main "HOL-Library.Multiset"
begin

section \<open>Year-ago comparison column (create_yoy_map.py, create_sophisticated_map.py)\<close>

text \<open>
  A column of the Zillow table is its header string. \<open>datetime.strptime(col, "%Y-%m-%d")\<close>
  is a library call: it is a parameter \<open>strptime\<close> of the model, returning \<open>None\<close> where
  Python raises \<open>ValueError\<close>. Only the fields \<open>year\<close> and \<open>month\<close> of the parsed
  date are read by the scripts.
\<close>

type_synonym column = string

record datetime =
  year :: int
  month :: int
  day :: int

datatype failure = NoDateColumns | LatestUnparsable | NoYearAgoData

text \<open>\<open>date_columns = [col for col in df.columns if '-' in col]\<close>\<close>

definition date_columns :: "column list \<Rightarrow> column list" where
  "date_columns columns = filter (\<lambda>col. CHR ''-'' \<in> set col) columns"

text \<open>Python's \<open>not x\<close> for \<open>x\<close> either \<open>None\<close> or a string: the empty string is falsy.\<close>

definition py_not :: "column option \<Rightarrow> bool" where
  "py_not x = (case x of None \<Rightarrow> True | Some s \<Rightarrow> s = [])"

subsection \<open>create_yoy_map.py, lines 45 to 78\<close>

text \<open>
  The first loop: the first column that parses to the target year and month; a column
  that does not parse is skipped (\<open>except: continue\<close>).
\<close>

fun yoy_exact_loop :: "(column \<Rightarrow> datetime option) \<Rightarrow> int \<Rightarrow> int \<Rightarrow> column list \<Rightarrow> column option" where
  "yoy_exact_loop strptime target_year target_month [] = None"
| "yoy_exact_loop strptime target_year target_month (col # cols) =
     (case strptime col of
        None \<Rightarrow> yoy_exact_loop strptime target_year target_month cols
      | Some col_date \<Rightarrow>
          if year col_date = target_year \<and> month col_date = target_month then Some col
          else yoy_exact_loop strptime target_year target_month cols)"

text \<open>The second loop: the columns of the target year, each with its month distance.\<close>

fun yoy_candidates_loop :: "(column \<Rightarrow> datetime option) \<Rightarrow> int \<Rightarrow> int \<Rightarrow> column list \<Rightarrow> (column \<times> int) list" where
  "yoy_candidates_loop strptime target_year target_month [] = []"
| "yoy_candidates_loop strptime target_year target_month (col # cols) =
     (case strptime col of
        None \<Rightarrow> yoy_candidates_loop strptime target_year target_month cols
      | Some col_date \<Rightarrow>
          if year col_date = target_year
          then (col, \<bar>month col_date - target_month\<bar>) # yoy_candidates_loop strptime target_year target_month cols
          else yoy_candidates_loop strptime target_year target_month cols)"

text \<open>
  From \<open>date_obj\<close> to the resolved column. \<open>list.sort(key=...)\<close> is a stable sort, as
  \<open>sort_key\<close> is; \<open>year_ago_candidates[0][0]\<close> is read only when the list is not empty.
\<close>

definition yoy_year_ago_date :: "(column \<Rightarrow> datetime option) \<Rightarrow> column list \<Rightarrow> datetime \<Rightarrow> failure + column" where
  "yoy_year_ago_date strptime cols date_obj =
     (let target_year = year date_obj - 1;
          target_month = month date_obj;
          year_ago_date = yoy_exact_loop strptime target_year target_month cols;
          year_ago_date' =
            (if py_not year_ago_date then
               (let year_ago_candidates = yoy_candidates_loop strptime target_year target_month cols
                in if year_ago_candidates \<noteq> []
                   then Some (fst (hd (sort_key snd year_ago_candidates)))
                   else year_ago_date)
             else year_ago_date)
      in if py_not year_ago_date' then Inl NoYearAgoData
         else (case year_ago_date' of None \<Rightarrow> Inl NoYearAgoData | Some col \<Rightarrow> Inr col))"

text \<open>
  The whole resolution of the script: no date column is an error return, a latest column
  that does not parse is an uncaught \<open>ValueError\<close>.
\<close>

definition yoy_resolve :: "(column \<Rightarrow> datetime option) \<Rightarrow> column list \<Rightarrow> failure + column" where
  "yoy_resolve strptime columns =
     (let cols = date_columns columns
      in if cols = [] then Inl NoDateColumns
         else (let latest_date = last cols
               in case strptime latest_date of
                    None \<Rightarrow> Inl LatestUnparsable
                  | Some date_obj \<Rightarrow> yoy_year_ago_date strptime cols date_obj))"

subsection \<open>create_sophisticated_map.py, lines 27 to 60\<close>

fun soph_exact_loop :: "(column \<Rightarrow> datetime option) \<Rightarrow> int \<Rightarrow> int \<Rightarrow> column list \<Rightarrow> column option" where
  "soph_exact_loop strptime target_year target_month [] = None"
| "soph_exact_loop strptime target_year target_month (col # cols) =
     (case strptime col of
        None \<Rightarrow> soph_exact_loop strptime target_year target_month cols
      | Some col_date \<Rightarrow>
          if year col_date = target_year \<and> month col_date = target_month then Some col
          else soph_exact_loop strptime target_year target_month cols)"

fun soph_candidates_loop :: "(column \<Rightarrow> datetime option) \<Rightarrow> int \<Rightarrow> int \<Rightarrow> column list \<Rightarrow> (column \<times> int) list" where
  "soph_candidates_loop strptime target_year target_month [] = []"
| "soph_candidates_loop strptime target_year target_month (col # cols) =
     (case strptime col of
        None \<Rightarrow> soph_candidates_loop strptime target_year target_month cols
      | Some col_date \<Rightarrow>
          if year col_date = target_year
          then (col, \<bar>month col_date - target_month\<bar>) # soph_candidates_loop strptime target_year target_month cols
          else soph_candidates_loop strptime target_year target_month cols)"

definition soph_year_ago_date :: "(column \<Rightarrow> datetime option) \<Rightarrow> column list \<Rightarrow> datetime \<Rightarrow> failure + column" where
  "soph_year_ago_date strptime cols date_obj =
     (let target_year = year date_obj - 1;
          target_month = month date_obj;
          year_ago_date = soph_exact_loop strptime target_year target_month cols;
          year_ago_date' =
            (if py_not year_ago_date then
               (let year_ago_candidates = soph_candidates_loop strptime target_year target_month cols
                in if year_ago_candidates \<noteq> []
                   then Some (fst (hd (sort_key snd year_ago_candidates)))
                   else year_ago_date)
             else year_ago_date)
      in if py_not year_ago_date' then Inl NoYearAgoData
         else (case year_ago_date' of None \<Rightarrow> Inl NoYearAgoData | Some col \<Rightarrow> Inr col))"

definition soph_resolve :: "(column \<Rightarrow> datetime option) \<Rightarrow> column list \<Rightarrow> failure + column" where
  "soph_resolve strptime columns =
     (let cols = date_columns columns
      in if cols = [] then Inl NoDateColumns
         else (let latest_date = last cols
               in case strptime latest_date of
                    None \<Rightarrow> Inl LatestUnparsable
                  | Some date_obj \<Rightarrow> soph_year_ago_date strptime cols date_obj))"

subsection \<open>A concrete parser\<close>

text \<open>
  The zero-padded form \<open>YYYY-MM-DD\<close> that the Zillow table uses, month 1 to 12 and day
  1 to 31. It instantiates the parameter \<open>strptime\<close> at concrete columns; the general
  theorems hold for every parser.
\<close>

definition digit :: "char \<Rightarrow> int option" where
  "digit c = (let n = of_char c :: nat in if 48 \<le> n \<and> n \<le> 57 then Some (int n - 48) else None)"

fun digits :: "string \<Rightarrow> int option" where
  "digits [] = None"
| "digits cs = foldl (\<lambda>acc c. case (acc, digit c) of (Some a, Some d) \<Rightarrow> Some (10 * a + d) | _ \<Rightarrow> None) (Some 0) cs"

definition parse_ymd :: "column \<Rightarrow> datetime option" where
  "parse_ymd col =
     (if length col = 10 \<and> col ! 4 = CHR ''-'' \<and> col ! 7 = CHR ''-'' then
        (case (digits (take 4 col), digits (take 2 (drop 5 col)), digits (drop 8 col)) of
           (Some y, Some m, Some d) \<Rightarrow>
             if 1 \<le> y \<and> 1 \<le> m \<and> m \<le> 12 \<and> 1 \<le> d \<and> d \<le> 31
             then Some \<lparr>year = y, month = m, day = d\<rparr> else None
         | _ \<Rightarrow> None)
      else None)"

section \<open>Numbers\<close>

text \<open>
  The prices and percent changes are floating-point numbers in the scripts. The model
  computes with exact rationals and keeps the three special values that decide which
  rows survive: a division by zero in pandas gives an infinity or \<open>NaN\<close> and raises
  nothing, and JavaScript arithmetic on \<open>undefined\<close> gives \<open>NaN\<close>. The percent change and
  the quantile engine are computed without rounding; the polygon membership test takes
  its arithmetic as a parameter.
\<close>

datatype number = Fin rat | PInf | NInf | NaN

definition fdiv :: "rat \<Rightarrow> rat \<Rightarrow> number" where
  "fdiv a b = (if b = 0 then (if 0 < a then PInf else if a < 0 then NInf else NaN) else Fin (a / b))"

fun fmul :: "number \<Rightarrow> rat \<Rightarrow> number" where
  "fmul (Fin a) c = Fin (a * c)"
| "fmul PInf c = (if 0 < c then PInf else if c < 0 then NInf else NaN)"
| "fmul NInf c = (if 0 < c then NInf else if c < 0 then PInf else NaN)"
| "fmul NaN c = NaN"

text \<open>Comparisons of a computed number with a constant: every comparison with \<open>NaN\<close> is false.\<close>

fun gt :: "number \<Rightarrow> rat \<Rightarrow> bool" where
  "gt (Fin a) c = (a > c)" | "gt PInf c = True" | "gt NInf c = False" | "gt NaN c = False"

fun ge :: "number \<Rightarrow> rat \<Rightarrow> bool" where
  "ge (Fin a) c = (a \<ge> c)" | "ge PInf c = True" | "ge NInf c = False" | "ge NaN c = False"

fun lt :: "number \<Rightarrow> rat \<Rightarrow> bool" where
  "lt (Fin a) c = (a < c)" | "lt PInf c = False" | "lt NInf c = True" | "lt NaN c = False"

fun le :: "number \<Rightarrow> rat \<Rightarrow> bool" where
  "le (Fin a) c = (a \<le> c)" | "le PInf c = False" | "le NInf c = True" | "le NaN c = False"

section \<open>Percent change and outlier filters\<close>

text \<open>
  A row of the Zillow table, with the two price cells the scripts read: the cell of the
  latest column and the cell of the year-ago column. An empty cell (\<open>NaN\<close> after
  \<open>read_csv\<close>) is \<open>None\<close>. The columns \<open>State\<close> and \<open>City\<close> are carried along unchanged
  and are left out.
\<close>

record row =
  RegionName :: string
  latest :: "rat option"
  year_ago :: "rat option"

text \<open>\<open>df.dropna(subset=[latest_date, year_ago_date])\<close>: region, latest price, year-ago price.\<close>

fun dropna :: "row list \<Rightarrow> (string \<times> rat \<times> rat) list" where
  "dropna [] = []"
| "dropna (r # rs) =
     (case (latest r, year_ago r) of
        (Some l, Some y) \<Rightarrow> (RegionName r, l, y) # dropna rs
      | _ \<Rightarrow> dropna rs)"

subsection \<open>create_yoy_map.py, lines 83 to 92\<close>

definition yoy_change :: "rat \<Rightarrow> rat \<Rightarrow> number" where
  "yoy_change latest_price year_ago_price =
     fmul (fdiv (latest_price - year_ago_price) year_ago_price) 100"

definition yoy_outlier_filter :: "number \<Rightarrow> bool" where
  "yoy_outlier_filter c = (gt c (-50) \<and> lt c 100)"

text \<open>The table with the column \<open>yoy_change\<close> added (lines 86 to 89), then filtered (line 92).\<close>

definition yoy_table :: "row list \<Rightarrow> (string \<times> rat \<times> rat \<times> number) list" where
  "yoy_table rows = map (\<lambda>(region, l, y). (region, l, y, yoy_change l y)) (dropna rows)"

definition df_yoy :: "row list \<Rightarrow> (string \<times> rat \<times> rat \<times> number) list" where
  "df_yoy rows = filter (\<lambda>(region, l, y, c). yoy_outlier_filter c) (yoy_table rows)"

subsection \<open>create_sophisticated_map.py, lines 65 to 69\<close>

definition price_change_pct :: "rat \<Rightarrow> rat \<Rightarrow> number" where
  "price_change_pct latest_v year_ago_v = fmul (fdiv (latest_v - year_ago_v) year_ago_v) 100"

definition soph_outlier_filter :: "number \<Rightarrow> bool" where
  "soph_outlier_filter c = (ge c (-50) \<and> le c 100)"

text \<open>The table with the column \<open>price_change_pct\<close> added (line 67), then filtered (line 69).\<close>

definition soph_table :: "row list \<Rightarrow> (string \<times> rat \<times> rat \<times> number) list" where
  "soph_table rows = map (\<lambda>(region, l, y). (region, l, y, price_change_pct l y)) (dropna rows)"

definition df_analysis :: "row list \<Rightarrow> (string \<times> rat \<times> rat \<times> number) list" where
  "df_analysis rows = filter (\<lambda>(region, l, y, c). soph_outlier_filter c) (soph_table rows)"

subsection \<open>create_price_levels.py, lines 45 to 51\<close>

fun dropna_latest :: "row list \<Rightarrow> (string \<times> rat) list" where
  "dropna_latest [] = []"
| "dropna_latest (r # rs) =
     (case latest r of Some l \<Rightarrow> (RegionName r, l) # dropna_latest rs | None \<Rightarrow> dropna_latest rs)"

definition price_level_filter :: "rat \<Rightarrow> bool" where
  "price_level_filter price_level = (price_level \<ge> 10000 \<and> price_level \<le> 10000000)"

definition df_price_levels :: "row list \<Rightarrow> (string \<times> rat) list" where
  "df_price_levels rows = filter (\<lambda>(region, price_level). price_level_filter price_level) (dropna_latest rows)"


section \<open>The client-side script of create_sophisticated_map.py\<close>

text \<open>An entry of \<open>zipData\<close>: the fields \<open>z\<close>, \<open>lat\<close>, \<open>lon\<close>, \<open>p\<close> and \<open>pop\<close>.\<close>

record zip =
  zip_z :: string
  zip_lat :: rat
  zip_lon :: rat
  zip_p :: rat
  zip_pop :: int

record latlng =
  lat :: rat
  lng :: rat

subsection \<open>calculateQuintiles, lines 544 to 567\<close>

text \<open>
  \<open>[...values].sort((a, b) => a - b)\<close> sorts finite numbers ascending. On an empty array
  \<open>sorted[0]\<close> and \<open>sorted[-1]\<close> are \<open>undefined\<close> and the four results are \<open>NaN\<close>.
  \<open>Math.floor\<close> of a number that is not negative is \<open>nat \<lfloor>_\<rfloor>\<close>.
\<close>

definition calculateQuintiles :: "rat list \<Rightarrow> number list" where
  "calculateQuintiles vals =
     (let sorted = sort vals in
      if length sorted < 5 then
        (if sorted = [] then [NaN, NaN, NaN, NaN]
         else (let min_v = sorted ! 0;
                   max_v = sorted ! (length sorted - 1);
                   range_v = max_v - min_v
               in [Fin (min_v + range_v * 0.2),
                   Fin (min_v + range_v * 0.4),
                   Fin (min_v + range_v * 0.6),
                   Fin (min_v + range_v * 0.8)]))
      else [Fin (sorted ! nat \<lfloor>of_nat (length sorted) * (0.2 :: rat)\<rfloor>),
            Fin (sorted ! nat \<lfloor>of_nat (length sorted) * (0.4 :: rat)\<rfloor>),
            Fin (sorted ! nat \<lfloor>of_nat (length sorted) * (0.6 :: rat)\<rfloor>),
            Fin (sorted ! nat \<lfloor>of_nat (length sorted) * (0.8 :: rat)\<rfloor>)])"

subsection \<open>The interactive state and updateLocalQuintiles, lines 569 to 595\<close>

text \<open>The arguments of a call of \<open>updateLegend\<close>.\<close>

record legend_call =
  quintiles :: "number list"
  zipCount :: nat
  minPop :: "int option"
  maxPop :: "int option"
  isSmallSample :: bool

datatype layer = Rectangle "latlng list" | Polygon "latlng list" | OtherLayer

record ui_state =
  isLocalMode :: bool
  currentQuintiles :: "number list"
  currentMinPop :: "int option"
  currentMaxPop :: "int option"
  drawnBoundary :: "layer option"

text \<open>\<open>map.getBounds().contains\<close> is Leaflet's: the parameter \<open>view_contains\<close>.\<close>

definition getVisibleZips :: "(latlng \<Rightarrow> bool) \<Rightarrow> zip list \<Rightarrow> zip list" where
  "getVisibleZips view_contains zipData =
     filter (\<lambda>zp. view_contains \<lparr>lat = zip_lat zp, lng = zip_lon zp\<rparr>) zipData"

text \<open>
  \<open>updateLocalQuintiles\<close> returns the new state and the arguments of its call of
  \<open>updateLegend\<close>, or no call when the map is not in local mode. \<open>Math.min\<close> and
  \<open>Math.max\<close> are applied to at least two populations.
\<close>

definition updateLocalQuintiles ::
    "number list \<Rightarrow> (latlng \<Rightarrow> bool) \<Rightarrow> zip list \<Rightarrow> ui_state \<Rightarrow> ui_state \<times> legend_call option" where
  "updateLocalQuintiles globalQuintiles view_contains zipData s =
     (if \<not> isLocalMode s then (s, None)
      else (let visibleZips = getVisibleZips view_contains zipData in
            if length visibleZips < 2 then
              (s\<lparr>currentQuintiles := globalQuintiles, currentMinPop := None, currentMaxPop := None\<rparr>,
               Some \<lparr>quintiles = globalQuintiles, zipCount = length visibleZips,
                     minPop = None, maxPop = None, isSmallSample = False\<rparr>)
            else (let prices = map zip_p visibleZips;
                      populations = map zip_pop visibleZips;
                      q = calculateQuintiles prices;
                      lo = Min (set populations);
                      hi = Max (set populations);
                      small = (length visibleZips < 5)
                  in (s\<lparr>currentQuintiles := q, currentMinPop := Some lo, currentMaxPop := Some hi\<rparr>,
                      Some \<lparr>quintiles = q, zipCount = length visibleZips,
                            minPop = Some lo, maxPop = Some hi, isSmallSample = small\<rparr>))))"

subsection \<open>JavaScript arithmetic\<close>

text \<open>
  The four arithmetic operations of JavaScript numbers round their results to binary64.
  They are parameters of the membership test, so that what is proved of the test for
  every \<open>arith\<close> holds of the rounding operations of the browser.
\<close>

record arith =
  js_sub :: "number \<Rightarrow> number \<Rightarrow> number"
  js_mul :: "number \<Rightarrow> number \<Rightarrow> number"
  js_div :: "number \<Rightarrow> number \<Rightarrow> number"
  js_add :: "number \<Rightarrow> number \<Rightarrow> number"

text \<open>The comparison \<open>a < b\<close> of JavaScript numbers is exact; with \<open>NaN\<close> it is false.\<close>

fun js_less :: "number \<Rightarrow> number \<Rightarrow> bool" where
  "js_less (Fin a) (Fin b) = (a < b)"
| "js_less (Fin a) PInf = True"
| "js_less NInf (Fin b) = True"
| "js_less NInf PInf = True"
| "js_less _ _ = False"

subsection \<open>isPointInPolygon, lines 725 to 740\<close>

text \<open>
  The loop \<open>for (i = 0, j = n - 1; i < n; j = i++)\<close>. The coordinates of the vertices
  and of the point are finite numbers and are compared exactly; the crossing abscissa
  \<open>(xj - xi) * (point.lng - yi) / (yj - yi) + xi\<close> is computed with the given operations,
  and only when the first conjunct of \<open>intersect\<close> holds. On an empty array \<open>j\<close> starts
  at \<open>-1\<close> and is never read.
\<close>

function pip_loop :: "arith \<Rightarrow> latlng \<Rightarrow> latlng list \<Rightarrow> nat \<Rightarrow> nat \<Rightarrow> bool \<Rightarrow> bool" where
  "pip_loop ar point latlngs i j inside =
     (if i < length latlngs then
        (let xi = lat (latlngs ! i); yi = lng (latlngs ! i);
             xj = lat (latlngs ! j); yj = lng (latlngs ! j);
             intersect =
               (if (yi > lng point) \<noteq> (yj > lng point)
                then js_less (Fin (lat point))
                       (js_add ar
                          (js_div ar
                             (js_mul ar (js_sub ar (Fin xj) (Fin xi)) (js_sub ar (Fin (lng point)) (Fin yi)))
                             (js_sub ar (Fin yj) (Fin yi)))
                          (Fin xi))
                else False)
         in pip_loop ar point latlngs (i + 1) i (if intersect then \<not> inside else inside))
      else inside)"
  by pat_completeness auto
termination
  by (relation "measure (\<lambda>(ar, point, latlngs, i, j, inside). length latlngs - i)") auto

definition isPointInPolygon :: "arith \<Rightarrow> latlng \<Rightarrow> latlng list \<Rightarrow> bool" where
  "isPointInPolygon ar point latlngs = pip_loop ar point latlngs 0 (length latlngs - 1) False"

subsection \<open>getZipsInBoundary, lines 699 to 723\<close>

text \<open>
  \<open>layer.getBounds().contains\<close> is Leaflet's: the parameter \<open>bounds_contains\<close>, which
  may raise. An error raised inside the callback of \<open>zipData.filter\<close> ends the filter and
  the function. The result is \<open>None\<close> for the \<open>null\<close> returned when no boundary is drawn.
\<close>

datatype js_error = TypeError

fun js_filter :: "('a \<Rightarrow> js_error + bool) \<Rightarrow> 'a list \<Rightarrow> js_error + 'a list" where
  "js_filter f [] = Inr []"
| "js_filter f (x # xs) =
     (case f x of
        Inl e \<Rightarrow> Inl e
      | Inr b \<Rightarrow> (case js_filter f xs of
                   Inl e \<Rightarrow> Inl e
                 | Inr ys \<Rightarrow> Inr (if b then x # ys else ys)))"

definition getZipsInBoundary ::
    "arith \<Rightarrow> (layer \<Rightarrow> latlng \<Rightarrow> js_error + bool) \<Rightarrow> zip list \<Rightarrow> layer option \<Rightarrow> js_error + zip list option" where
  "getZipsInBoundary ar bounds_contains zipData boundary =
     (case boundary of
        None \<Rightarrow> Inr None
      | Some layer \<Rightarrow>
          (case js_filter (\<lambda>zp.
                  (let point = \<lparr>lat = zip_lat zp, lng = zip_lon zp\<rparr> in
                   case layer of
                     Rectangle _ \<Rightarrow> bounds_contains layer point
                   | Polygon latlngs \<Rightarrow>
                       (case bounds_contains layer point of
                          Inl e \<Rightarrow> Inl e
                        | Inr b \<Rightarrow> if \<not> b then Inr False
                                   else Inr (isPointInPolygon ar point latlngs))
                   | OtherLayer \<Rightarrow> Inr False)) zipData of
             Inl e \<Rightarrow> Inl e
           | Inr filtered \<Rightarrow> Inr (Some filtered)))"

text \<open>
  Leaflet's bounds of a layer, for concrete evaluations: the bounding box of the
  vertices, sides included. The bounds of no vertex have no corners, and \<open>contains\<close>
  raises a \<open>TypeError\<close> reading them.
\<close>

definition box_contains :: "layer \<Rightarrow> latlng \<Rightarrow> js_error + bool" where
  "box_contains layer point =
     (let vs = (case layer of Rectangle vs \<Rightarrow> vs | Polygon vs \<Rightarrow> vs | OtherLayer \<Rightarrow> [])
      in if vs = [] then Inl TypeError
         else Inr (Min (set (map lat vs)) \<le> lat point \<and> lat point \<le> Max (set (map lat vs))
                 \<and> Min (set (map lng vs)) \<le> lng point \<and> lng point \<le> Max (set (map lng vs))))"

subsection \<open>Binary64 arithmetic\<close>

text \<open>
  The arithmetic of JavaScript numbers, for concrete evaluations: the exact result
  rounded to the nearest number with 53 significant bits, ties to the even significand,
  with gradual underflow below \<open>2 ^ - 1022\<close> and overflow to an infinity. \<open>exponent\<close>
  finds \<open>\<lfloor>log\<^sub>2 x\<rfloor>\<close> by halving or doubling; its fuel exceeds the exponent range. The sign
  of a zero is not represented.
\<close>

definition half_even :: "rat \<Rightarrow> int" where
  "half_even x =
     (let f = \<lfloor>x\<rfloor>; r = x - of_int f
      in if r < 1 / 2 then f else if 1 / 2 < r then f + 1 else if even f then f else f + 1)"

fun exponent :: "nat \<Rightarrow> rat \<Rightarrow> int" where
  "exponent 0 x = 0"
| "exponent (Suc fuel) x =
     (if 2 \<le> x then exponent fuel (x / 2) + 1
      else if x < 1 then exponent fuel (x * 2) - 1
      else 0)"

definition quantum :: "rat \<Rightarrow> rat" where
  "quantum x =
     (let e = max (exponent 2200 \<bar>x\<bar>) (- 1022) - 52
      in if 0 \<le> e then 2 ^ nat e else 1 / 2 ^ nat (- e))"

definition nearest_double :: "rat \<Rightarrow> rat" where
  "nearest_double x = (if x = 0 then 0 else of_int (half_even (x / quantum x)) * quantum x)"

definition to_double :: "rat \<Rightarrow> number" where
  "to_double x =
     (let y = nearest_double x
      in if 2 ^ 1024 \<le> y then PInf else if y \<le> - (2 ^ 1024) then NInf else Fin y)"

fun positive :: "number \<Rightarrow> bool" where
  "positive (Fin a) = (0 \<le> a)"
| "positive PInf = True"
| "positive NInf = False"
| "positive NaN = False"

fun d_add :: "number \<Rightarrow> number \<Rightarrow> number" where
  "d_add (Fin a) (Fin b) = to_double (a + b)"
| "d_add NaN y = NaN"
| "d_add x NaN = NaN"
| "d_add PInf NInf = NaN"
| "d_add NInf PInf = NaN"
| "d_add PInf y = PInf"
| "d_add NInf y = NInf"
| "d_add x PInf = PInf"
| "d_add x NInf = NInf"

fun d_neg :: "number \<Rightarrow> number" where
  "d_neg (Fin a) = Fin (- a)"
| "d_neg PInf = NInf"
| "d_neg NInf = PInf"
| "d_neg NaN = NaN"

definition d_sub :: "number \<Rightarrow> number \<Rightarrow> number" where
  "d_sub x y = d_add x (d_neg y)"

fun d_mul :: "number \<Rightarrow> number \<Rightarrow> number" where
  "d_mul (Fin a) (Fin b) = to_double (a * b)"
| "d_mul NaN y = NaN"
| "d_mul x NaN = NaN"
| "d_mul x y = (if x = Fin 0 \<or> y = Fin 0 then NaN else if positive x = positive y then PInf else NInf)"

fun d_div :: "number \<Rightarrow> number \<Rightarrow> number" where
  "d_div (Fin a) (Fin b) =
     (if b = 0 then (if a = 0 then NaN else if 0 < a then PInf else NInf) else to_double (a / b))"
| "d_div NaN y = NaN"
| "d_div x NaN = NaN"
| "d_div (Fin a) y = Fin 0"
| "d_div x (Fin b) = (if positive x = (0 \<le> b) then PInf else NInf)"
| "d_div x y = NaN"

definition doubles :: arith where
  "doubles = \<lparr>js_sub = d_sub, js_mul = d_mul, js_div = d_div, js_add = d_add\<rparr>"

subsection \<open>Crossing edges\<close>

text \<open>
  Two segments cross properly when the end points of each lie strictly on opposite sides
  of the other: the sign of the orientation determinant. A polygon with two such edges
  is self-intersecting.
\<close>

definition orient :: "latlng \<Rightarrow> latlng \<Rightarrow> latlng \<Rightarrow> rat" where
  "orient a b c = (lat b - lat a) * (lng c - lng a) - (lng b - lng a) * (lat c - lat a)"

definition segments_cross :: "latlng \<Rightarrow> latlng \<Rightarrow> latlng \<Rightarrow> latlng \<Rightarrow> bool" where
  "segments_cross a b c d = (orient a b c * orient a b d < 0 \<and> orient c d a * orient c d b < 0)"

section \<open>Properties of the year-ago resolution\<close>

lemma soph_exact_eq: "soph_exact_loop p ty tm M = yoy_exact_loop p ty tm M"
  by (induction M) (auto split: option.splits)

lemma soph_candidates_eq: "soph_candidates_loop p ty tm M = yoy_candidates_loop p ty tm M"
  by (induction M) (auto split: option.splits)

lemma soph_year_ago_eq: "soph_year_ago_date p M T = yoy_year_ago_date p M T"
  unfolding soph_year_ago_date_def yoy_year_ago_date_def soph_exact_eq soph_candidates_eq ..

lemma candidates_empty_iff:
  "yoy_candidates_loop p ty tm M = [] \<longleftrightarrow> (\<forall>c\<in>set M. \<forall>d. p c = Some d \<longrightarrow> year d \<noteq> ty)"
  by (induction M) (auto split: option.splits)

lemma hd_insort_key:
  "hd (insort_key f x ys) = (if ys = [] \<or> f x \<le> f (hd ys) then x else hd ys)"
  by (cases ys) auto

lemma closest_decomp:
  assumes "yoy_candidates_loop p ty tm M \<noteq> []"
  shows "\<exists>pre c post d. M = pre @ c # post \<and> p c = Some d \<and> year d = ty
           \<and> hd (sort_key snd (yoy_candidates_loop p ty tm M)) = (c, \<bar>month d - tm\<bar>)
           \<and> (\<forall>c'\<in>set pre. \<forall>d'. p c' = Some d' \<and> year d' = ty \<longrightarrow> \<bar>month d - tm\<bar> < \<bar>month d' - tm\<bar>)
           \<and> (\<forall>c'\<in>set post. \<forall>d'. p c' = Some d' \<and> year d' = ty \<longrightarrow> \<bar>month d - tm\<bar> \<le> \<bar>month d' - tm\<bar>)"
  using assms
proof (induction M)
  case Nil
  then show ?case by simp
next
  case (Cons x xs)
  let ?cs = "yoy_candidates_loop p ty tm xs"
  show ?case
  proof (cases "\<exists>dx. p x = Some dx \<and> year dx = ty")
    case False
    then have eq: "yoy_candidates_loop p ty tm (x # xs) = ?cs"
      by (auto split: option.splits)
    with Cons.prems have "?cs \<noteq> []" by simp
    from Cons.IH[OF this] obtain pre c post d where
      h: "xs = pre @ c # post" "p c = Some d" "year d = ty"
         "hd (sort_key snd ?cs) = (c, \<bar>month d - tm\<bar>)"
         "\<forall>c'\<in>set pre. \<forall>d'. p c' = Some d' \<and> year d' = ty \<longrightarrow> \<bar>month d - tm\<bar> < \<bar>month d' - tm\<bar>"
         "\<forall>c'\<in>set post. \<forall>d'. p c' = Some d' \<and> year d' = ty \<longrightarrow> \<bar>month d - tm\<bar> \<le> \<bar>month d' - tm\<bar>"
      by blast
    have "x # xs = (x # pre) @ c # post" using h(1) by simp
    moreover have "\<forall>c'\<in>set (x # pre). \<forall>d'. p c' = Some d' \<and> year d' = ty \<longrightarrow> \<bar>month d - tm\<bar> < \<bar>month d' - tm\<bar>"
      using h(5) False by auto
    ultimately show ?thesis using h(2,3,4,6) eq by metis
  next
    case True
    then obtain dx where dx: "p x = Some dx" "year dx = ty" by blast
    let ?k = "\<bar>month dx - tm\<bar>"
    have eq: "yoy_candidates_loop p ty tm (x # xs) = (x, ?k) # ?cs"
      using dx by simp
    have hd_eq: "hd (sort_key snd ((x, ?k) # ?cs)) =
        (if sort_key snd ?cs = [] \<or> ?k \<le> snd (hd (sort_key snd ?cs)) then (x, ?k) else hd (sort_key snd ?cs))"
      by (simp add: hd_insort_key)
    show ?thesis
    proof (cases "?cs = []")
      case True
      then have none: "\<forall>c'\<in>set xs. \<forall>d'. p c' = Some d' \<longrightarrow> year d' \<noteq> ty"
        by (simp add: candidates_empty_iff)
      have "x # xs = [] @ x # xs" by simp
      moreover have "hd (sort_key snd (yoy_candidates_loop p ty tm (x # xs))) = (x, ?k)"
        using eq True by simp
      ultimately show ?thesis using dx none
        by (intro exI[of _ "[]"] exI[of _ x] exI[of _ xs] exI[of _ dx]) auto
    next
      case False
      from Cons.IH[OF this] obtain pre c post d where
        h: "xs = pre @ c # post" "p c = Some d" "year d = ty"
           "hd (sort_key snd ?cs) = (c, \<bar>month d - tm\<bar>)"
           "\<forall>c'\<in>set pre. \<forall>d'. p c' = Some d' \<and> year d' = ty \<longrightarrow> \<bar>month d - tm\<bar> < \<bar>month d' - tm\<bar>"
           "\<forall>c'\<in>set post. \<forall>d'. p c' = Some d' \<and> year d' = ty \<longrightarrow> \<bar>month d - tm\<bar> \<le> \<bar>month d' - tm\<bar>"
        by blast
      have ne: "sort_key snd ?cs \<noteq> []" using False
        by (metis length_sort length_0_conv)
      show ?thesis
      proof (cases "?k \<le> \<bar>month d - tm\<bar>")
        case True
        have r: "hd (sort_key snd (yoy_candidates_loop p ty tm (x # xs))) = (x, ?k)"
          using eq hd_eq h(4) True by simp
        have all: "\<forall>c'\<in>set xs. \<forall>d'. p c' = Some d' \<and> year d' = ty \<longrightarrow> ?k \<le> \<bar>month d' - tm\<bar>"
        proof (intro ballI allI impI)
          fix c' d' assume c': "c' \<in> set xs" "p c' = Some d' \<and> year d' = ty"
          then have "c' \<in> set pre \<or> c' = c \<or> c' \<in> set post" using h(1) by auto
          then have "\<bar>month d - tm\<bar> \<le> \<bar>month d' - tm\<bar>"
            using h(2,5,6) c'(2) by fastforce
          with True show "?k \<le> \<bar>month d' - tm\<bar>" by linarith
        qed
        show ?thesis using dx r all
          by (intro exI[of _ "[]"] exI[of _ x] exI[of _ xs] exI[of _ dx]) auto
      next
        case False
        have r: "hd (sort_key snd (yoy_candidates_loop p ty tm (x # xs))) = (c, \<bar>month d - tm\<bar>)"
          using eq hd_eq h(4) False ne by simp
        have "x # xs = (x # pre) @ c # post" using h(1) by simp
        moreover have "\<forall>c'\<in>set (x # pre). \<forall>d'. p c' = Some d' \<and> year d' = ty \<longrightarrow> \<bar>month d - tm\<bar> < \<bar>month d' - tm\<bar>"
          using h(5) False dx by auto
        ultimately show ?thesis using h(2,3,6) r by metis
      qed
    qed
  qed
qed


lemma soph_resolve_eq: "soph_resolve p columns = yoy_resolve p columns"
  unfolding soph_resolve_def yoy_resolve_def soph_year_ago_eq ..

lemma date_columns_nonempty: "date_columns M = M \<Longrightarrow> c \<in> set M \<Longrightarrow> c \<noteq> []"
proof -
  assume a: "date_columns M = M" and c: "c \<in> set M"
  from c a have "c \<in> set (filter (\<lambda>col. CHR ''-'' \<in> set col) M)"
    by (simp add: date_columns_def)
  then show "c \<noteq> []" by auto
qed

lemma yoy_exact_decomp:
  assumes "c \<in> set M" "p c = Some d" "year d = ty" "month d = tm"
  shows "\<exists>pre c' post d'. M = pre @ c' # post \<and> p c' = Some d' \<and> year d' = ty \<and> month d' = tm
           \<and> (\<forall>x\<in>set pre. \<forall>dx. p x = Some dx \<longrightarrow> \<not> (year dx = ty \<and> month dx = tm))
           \<and> yoy_exact_loop p ty tm M = Some c'"
  using assms
proof (induction M)
  case Nil
  then show ?case by simp
next
  case (Cons x xs)
  show ?case
  proof (cases "\<exists>dx. p x = Some dx \<and> year dx = ty \<and> month dx = tm")
    case True
    then obtain dx where dx: "p x = Some dx" "year dx = ty" "month dx = tm" by blast
    then have "yoy_exact_loop p ty tm (x # xs) = Some x" by simp
    then show ?thesis using dx
      by (intro exI[of _ "[]"] exI[of _ x] exI[of _ xs] exI[of _ dx]) simp
  next
    case False
    then have eq: "yoy_exact_loop p ty tm (x # xs) = yoy_exact_loop p ty tm xs"
      by (auto split: option.splits)
    from False Cons.prems have "c \<in> set xs" by auto
    from Cons.IH[OF this Cons.prems(2,3,4)] obtain pre c' post d' where
      h: "xs = pre @ c' # post" "p c' = Some d'" "year d' = ty" "month d' = tm"
         "\<forall>x\<in>set pre. \<forall>dx. p x = Some dx \<longrightarrow> \<not> (year dx = ty \<and> month dx = tm)"
         "yoy_exact_loop p ty tm xs = Some c'"
      by blast
    have "x # xs = (x # pre) @ c' # post" using h(1) by simp
    moreover have "\<forall>y\<in>set (x # pre). \<forall>dx. p y = Some dx \<longrightarrow> \<not> (year dx = ty \<and> month dx = tm)"
      using h(5) False by auto
    ultimately show ?thesis using h(2,3,4,6) eq by metis
  qed
qed

lemma yoy_exact_none:
  "(yoy_exact_loop p ty tm M = None) \<longleftrightarrow> (\<forall>c\<in>set M. \<forall>d. p c = Some d \<longrightarrow> \<not> (year d = ty \<and> month d = tm))"
  by (induction M) (auto split: option.splits)

lemma yoy_year_ago_exact:
  assumes "yoy_exact_loop p (year T - 1) (month T) M = Some c" "c \<noteq> []"
  shows "yoy_year_ago_date p M T = Inr c"
  using assms by (simp add: yoy_year_ago_date_def py_not_def)

lemma yoy_year_ago_closest:
  assumes "yoy_exact_loop p (year T - 1) (month T) M = None"
      and "yoy_candidates_loop p (year T - 1) (month T) M \<noteq> []"
      and "hd (sort_key snd (yoy_candidates_loop p (year T - 1) (month T) M)) = (c, k)" "c \<noteq> []"
  shows "yoy_year_ago_date p M T = Inr c"
  using assms by (simp add: yoy_year_ago_date_def py_not_def)

text \<open>
  Claim C3. Whenever the list of date columns holds a column of the target's month in the
  year before the target, both scripts return such a column, and it is the first one in
  input order: no column before it has that year and month.
\<close>
theorem exact_month_column_returned:
  assumes "date_columns M = M"
      and "c \<in> set M" and "strptime c = Some d"
      and "year d = year T - 1" and "month d = month T"
  shows "\<exists>pre c' post d'. M = pre @ c' # post
           \<and> strptime c' = Some d' \<and> year d' = year T - 1 \<and> month d' = month T
           \<and> (\<forall>x\<in>set pre. \<forall>dx. strptime x = Some dx \<longrightarrow> \<not> (year dx = year T - 1 \<and> month dx = month T))
           \<and> yoy_year_ago_date strptime M T = Inr c'
           \<and> soph_year_ago_date strptime M T = Inr c'"
proof -
  from yoy_exact_decomp[of c M strptime d "year T - 1" "month T", OF assms(2,3,4,5)] obtain pre c' post d' where
    h: "M = pre @ c' # post" "strptime c' = Some d'" "year d' = year T - 1" "month d' = month T"
       "\<forall>x\<in>set pre. \<forall>dx. strptime x = Some dx \<longrightarrow> \<not> (year dx = year T - 1 \<and> month dx = month T)"
       "yoy_exact_loop strptime (year T - 1) (month T) M = Some c'"
    by blast
  have "c' \<in> set M" using h(1) by simp
  then have "c' \<noteq> []" using assms(1) date_columns_nonempty by blast
  then have r: "yoy_year_ago_date strptime M T = Inr c'"
    using h(6) yoy_year_ago_exact by blast
  then have "soph_year_ago_date strptime M T = Inr c'"
    by (simp add: soph_year_ago_eq)
  with r h(1-5) show ?thesis by blast
qed

theorem exact_month_column_returned_witness:
  "date_columns [''2023-04-30'', ''2023-05-31'', ''2023-06-30'', ''2024-05-31''] = [''2023-04-30'', ''2023-05-31'', ''2023-06-30'', ''2024-05-31'']
   \<and> parse_ymd ''2023-05-31'' = Some \<lparr>year = 2023, month = 5, day = 31\<rparr>
   \<and> (\<exists>pre c' post d'. [''2023-04-30'', ''2023-05-31'', ''2023-06-30'', ''2024-05-31''] = pre @ c' # post
           \<and> parse_ymd c' = Some d' \<and> year d' = 2023 \<and> month d' = 5
           \<and> (\<forall>x\<in>set pre. \<forall>dx. parse_ymd x = Some dx \<longrightarrow> \<not> (year dx = 2023 \<and> month dx = 5))
           \<and> yoy_year_ago_date parse_ymd [''2023-04-30'', ''2023-05-31'', ''2023-06-30'', ''2024-05-31''] \<lparr>year = 2024, month = 5, day = 31\<rparr> = Inr c'
           \<and> soph_year_ago_date parse_ymd [''2023-04-30'', ''2023-05-31'', ''2023-06-30'', ''2024-05-31''] \<lparr>year = 2024, month = 5, day = 31\<rparr> = Inr c')"
proof -
  let ?M = "[''2023-04-30'', ''2023-05-31'', ''2023-06-30'', ''2024-05-31'']"
  have h1: "date_columns ?M = ?M" by (simp add: date_columns_def)
  have h2: "''2023-05-31'' \<in> set ?M" by simp
  have h3: "parse_ymd ''2023-05-31'' = Some \<lparr>year = 2023, month = 5, day = 31\<rparr>" by code_simp
  from exact_month_column_returned[of ?M "''2023-05-31''" parse_ymd "\<lparr>year = 2023, month = 5, day = 31\<rparr>" "\<lparr>year = 2024, month = 5, day = 31\<rparr>", OF h1 h2 h3]
  show ?thesis using h1 h3 by simp
qed

text \<open>
  Claim C4. When no column has the target's month in the year before, but some column
  lies in that year, both scripts return a column of that year whose month is closest to
  the target's month; every earlier column of that year is strictly farther, so among
  equidistant columns the earliest in input order is returned.
\<close>
theorem closest_month_column_returned:
  assumes "date_columns M = M"
      and "\<forall>x\<in>set M. \<forall>dx. strptime x = Some dx \<longrightarrow> \<not> (year dx = year T - 1 \<and> month dx = month T)"
      and "c0 \<in> set M" and "strptime c0 = Some d0" and "year d0 = year T - 1"
  shows "\<exists>pre c post d. M = pre @ c # post
           \<and> strptime c = Some d \<and> year d = year T - 1
           \<and> (\<forall>c'\<in>set pre. \<forall>d'. strptime c' = Some d' \<and> year d' = year T - 1 \<longrightarrow> \<bar>month d - month T\<bar> < \<bar>month d' - month T\<bar>)
           \<and> (\<forall>c'\<in>set post. \<forall>d'. strptime c' = Some d' \<and> year d' = year T - 1 \<longrightarrow> \<bar>month d - month T\<bar> \<le> \<bar>month d' - month T\<bar>)
           \<and> yoy_year_ago_date strptime M T = Inr c
           \<and> soph_year_ago_date strptime M T = Inr c"
proof -
  have none: "yoy_exact_loop strptime (year T - 1) (month T) M = None"
    using assms(2) by (simp add: yoy_exact_none)
  have ne: "yoy_candidates_loop strptime (year T - 1) (month T) M \<noteq> []"
    using assms(3,4,5) by (auto simp: candidates_empty_iff)
  from closest_decomp[OF ne] obtain pre c post d where
    h: "M = pre @ c # post" "strptime c = Some d" "year d = year T - 1"
       "hd (sort_key snd (yoy_candidates_loop strptime (year T - 1) (month T) M)) = (c, \<bar>month d - month T\<bar>)"
       "\<forall>c'\<in>set pre. \<forall>d'. strptime c' = Some d' \<and> year d' = year T - 1 \<longrightarrow> \<bar>month d - month T\<bar> < \<bar>month d' - month T\<bar>"
       "\<forall>c'\<in>set post. \<forall>d'. strptime c' = Some d' \<and> year d' = year T - 1 \<longrightarrow> \<bar>month d - month T\<bar> \<le> \<bar>month d' - month T\<bar>"
    by blast
  have "c \<in> set M" using h(1) by simp
  then have "c \<noteq> []" using assms(1) date_columns_nonempty by blast
  then have r: "yoy_year_ago_date strptime M T = Inr c"
    using yoy_year_ago_closest[OF none ne h(4)] by simp
  then have "soph_year_ago_date strptime M T = Inr c"
    by (simp add: soph_year_ago_eq)
  with r h(1,2,3,5,6) show ?thesis by blast
qed

lemma parse_2023_03: "parse_ymd ''2023-03-31'' = Some \<lparr>year = 2023, month = 3, day = 31\<rparr>"
  by code_simp
lemma parse_2023_07: "parse_ymd ''2023-07-31'' = Some \<lparr>year = 2023, month = 7, day = 31\<rparr>"
  by code_simp
lemma parse_2024_05: "parse_ymd ''2024-05-31'' = Some \<lparr>year = 2024, month = 5, day = 31\<rparr>"
  by code_simp

theorem closest_month_column_returned_witness:
  "yoy_year_ago_date parse_ymd [''2023-07-31'', ''2023-03-31'', ''2024-05-31''] \<lparr>year = 2024, month = 5, day = 31\<rparr> = Inr ''2023-07-31''
   \<and> soph_year_ago_date parse_ymd [''2023-07-31'', ''2023-03-31'', ''2024-05-31''] \<lparr>year = 2024, month = 5, day = 31\<rparr> = Inr ''2023-07-31''"
proof -
  let ?M = "[''2023-07-31'', ''2023-03-31'', ''2024-05-31'']"
  let ?T = "\<lparr>year = 2024, month = 5, day = 31\<rparr>"
  have h1: "date_columns ?M = ?M" by (simp add: date_columns_def)
  have h2: "\<forall>x\<in>set ?M. \<forall>dx. parse_ymd x = Some dx \<longrightarrow> \<not> (year dx = year ?T - 1 \<and> month dx = month ?T)"
    using parse_2023_03 parse_2023_07 parse_2024_05 by auto
  have h3: "''2023-07-31'' \<in> set ?M" by simp
  have h5: "year \<lparr>year = 2023, month = 7, day = 31\<rparr> = year ?T - 1" by simp
  from closest_month_column_returned[OF h1 h2 h3 parse_2023_07 h5] obtain pre c post d where
    h: "?M = pre @ c # post" "parse_ymd c = Some d" "year d = year ?T - 1"
       "\<forall>c'\<in>set pre. \<forall>d'. parse_ymd c' = Some d' \<and> year d' = year ?T - 1 \<longrightarrow> \<bar>month d - month ?T\<bar> < \<bar>month d' - month ?T\<bar>"
       "\<forall>c'\<in>set post. \<forall>d'. parse_ymd c' = Some d' \<and> year d' = year ?T - 1 \<longrightarrow> \<bar>month d - month ?T\<bar> \<le> \<bar>month d' - month ?T\<bar>"
       "yoy_year_ago_date parse_ymd ?M ?T = Inr c" "soph_year_ago_date parse_ymd ?M ?T = Inr c"
    by blast
  have "yoy_year_ago_date parse_ymd ?M ?T = Inr ''2023-07-31''"
    by (simp add: yoy_year_ago_date_def py_not_def parse_2023_03 parse_2023_07 parse_2024_05)
  with h(6,7) show ?thesis by simp
qed

text \<open>
  Claim C10. The two scripts resolve the same year-ago column: on every table header and
  every parser they return the same column or fail with the same error, for the whole
  resolution from the header and for the search from a given latest date.
\<close>
theorem scripts_resolve_same_column:
  "soph_resolve strptime columns = yoy_resolve strptime columns
   \<and> soph_year_ago_date strptime M T = yoy_year_ago_date strptime M T"
  by (simp add: soph_resolve_eq soph_year_ago_eq)

section \<open>Properties of the quantile engine\<close>

lemma floor_fifths:
  "nat \<lfloor>of_nat n * (0.2 :: rat)\<rfloor> = n div 5"
  "nat \<lfloor>of_nat n * (0.4 :: rat)\<rfloor> = 2 * n div 5"
  "nat \<lfloor>of_nat n * (0.6 :: rat)\<rfloor> = 3 * n div 5"
  "nat \<lfloor>of_nat n * (0.8 :: rat)\<rfloor> = 4 * n div 5"
proof -
  have k: "nat \<lfloor>(of_nat m :: rat) / of_nat 5\<rfloor> = m div 5" for m :: nat
    by (simp only: floor_divide_of_nat_eq nat_int)
  have "of_nat n * (0.2 :: rat) = of_nat n / of_nat 5" by simp
  then show "nat \<lfloor>of_nat n * (0.2 :: rat)\<rfloor> = n div 5" using k[of n] by simp
  have "of_nat n * (0.4 :: rat) = of_nat (2 * n) / of_nat 5" by simp
  then show "nat \<lfloor>of_nat n * (0.4 :: rat)\<rfloor> = 2 * n div 5" using k[of "2 * n"] by (simp add: mult.commute)
  have "of_nat n * (0.6 :: rat) = of_nat (3 * n) / of_nat 5" by simp
  then show "nat \<lfloor>of_nat n * (0.6 :: rat)\<rfloor> = 3 * n div 5" using k[of "3 * n"] by (simp add: mult.commute)
  have "of_nat n * (0.8 :: rat) = of_nat (4 * n) / of_nat 5" by simp
  then show "nat \<lfloor>of_nat n * (0.8 :: rat)\<rfloor> = 4 * n div 5" using k[of "4 * n"] by (simp add: mult.commute)
qed

lemma sort_unique: "sorted xs \<Longrightarrow> mset xs = mset S \<Longrightarrow> sort S = xs"
  by (simp add: properties_for_sort)

lemma sort_perm: "mset S = mset S' \<Longrightarrow> sort S = sort (S' :: rat list)"
  by (metis mset_sort properties_for_sort sorted_sort)


lemma sorted_first_Min:
  assumes "sorted xs" "xs \<noteq> []"
  shows "xs ! 0 = Min (set (xs :: rat list))"
proof -
  have "\<And>y. y \<in> set xs \<Longrightarrow> xs ! 0 \<le> y"
    using assms(1) by (metis in_set_conv_nth sorted_nth_mono zero_le)
  moreover have "xs ! 0 \<in> set xs" using assms(2) by simp
  ultimately show ?thesis by (simp add: Min_eqI[symmetric])
qed

lemma sorted_last_Max:
  assumes "sorted xs" "xs \<noteq> []"
  shows "xs ! (length xs - 1) = Max (set (xs :: rat list))"
proof -
  have n: "length xs - 1 < length xs" using assms(2) by simp
  have "\<And>y. y \<in> set xs \<Longrightarrow> y \<le> xs ! (length xs - 1)"
  proof -
    fix y assume "y \<in> set xs"
    then obtain i where i: "i < length xs" "xs ! i = y" by (auto simp: in_set_conv_nth)
    then have "i \<le> length xs - 1" by simp
    from sorted_nth_mono[OF assms(1) this n] i show "y \<le> xs ! (length xs - 1)" by simp
  qed
  moreover have "xs ! (length xs - 1) \<in> set xs" using n by simp
  ultimately show ?thesis by (simp add: Max_eqI[symmetric])
qed

lemma calculateQuintiles_small:
  assumes "S \<noteq> []" "length S < 5"
  shows "calculateQuintiles S =
     [Fin (Min (set S) + (Max (set S) - Min (set S)) * 0.2),
      Fin (Min (set S) + (Max (set S) - Min (set S)) * 0.4),
      Fin (Min (set S) + (Max (set S) - Min (set S)) * 0.6),
      Fin (Min (set S) + (Max (set S) - Min (set S)) * 0.8)]"
proof -
  have ne: "sort S \<noteq> []" using assms(1) by (metis length_sort length_0_conv)
  have mn: "sort S ! 0 = Min (set S)"
    using sorted_first_Min[OF sorted_sort ne] by simp
  have mx: "sort S ! (length S - 1) = Max (set S)"
    using sorted_last_Max[OF sorted_sort ne] by simp
  show ?thesis
    using assms(2) ne mn mx by (simp add: calculateQuintiles_def Let_def)
qed

lemma calculateQuintiles_large:
  assumes "5 \<le> length S"
  shows "calculateQuintiles S =
     [Fin (sort S ! (length S div 5)), Fin (sort S ! (2 * length S div 5)),
      Fin (sort S ! (3 * length S div 5)), Fin (sort S ! (4 * length S div 5))]"
  unfolding calculateQuintiles_def Let_def length_sort floor_fifths using assms by simp


text \<open>
  Claim C1. On a list \<open>S\<close> of at least five values, \<open>calculateQuintiles\<close> returns the
  elements of the ascending sorted list (any sorted list \<open>xs\<close> with the same elements and
  multiplicities as \<open>S\<close>) at the zero-based indices \<open>\<lfloor>0.2 n\<rfloor>\<close>, \<open>\<lfloor>0.4 n\<rfloor>\<close>,
  \<open>\<lfloor>0.6 n\<rfloor>\<close> and \<open>\<lfloor>0.8 n\<rfloor>\<close>, all of which lie inside the list; on the ten values
  from -10 to 35 in steps of 5 it returns 0, 10, 20 and 30.
\<close>
theorem quintiles_rank_breakpoints:
  assumes "5 \<le> length S" and "sorted xs" and "mset xs = mset S"
  shows "calculateQuintiles S =
           [Fin (xs ! nat \<lfloor>0.2 * rat_of_nat (length S)\<rfloor>), Fin (xs ! nat \<lfloor>0.4 * rat_of_nat (length S)\<rfloor>),
            Fin (xs ! nat \<lfloor>0.6 * rat_of_nat (length S)\<rfloor>), Fin (xs ! nat \<lfloor>0.8 * rat_of_nat (length S)\<rfloor>)]
         \<and> nat \<lfloor>0.8 * rat_of_nat (length S)\<rfloor> < length xs
         \<and> calculateQuintiles [-10, -5, 0, 5, 10, 15, 20, 25, 30, 35] = [Fin 0, Fin 10, Fin 20, Fin 30]"
proof -
  have s: "sort S = xs" using assms(2,3) by (simp add: properties_for_sort)
  have len: "length xs = length S" using assms(3) by (metis size_mset)
  have idx: "nat \<lfloor>0.2 * rat_of_nat (length S)\<rfloor> = length S div 5"
            "nat \<lfloor>0.4 * rat_of_nat (length S)\<rfloor> = 2 * length S div 5"
            "nat \<lfloor>0.6 * rat_of_nat (length S)\<rfloor> = 3 * length S div 5"
            "nat \<lfloor>0.8 * rat_of_nat (length S)\<rfloor> = 4 * length S div 5"
    using floor_fifths[of "length S"] by (simp_all only: mult.commute)
  have a: "calculateQuintiles S =
           [Fin (xs ! nat \<lfloor>0.2 * rat_of_nat (length S)\<rfloor>), Fin (xs ! nat \<lfloor>0.4 * rat_of_nat (length S)\<rfloor>),
            Fin (xs ! nat \<lfloor>0.6 * rat_of_nat (length S)\<rfloor>), Fin (xs ! nat \<lfloor>0.8 * rat_of_nat (length S)\<rfloor>)]"
    unfolding idx using calculateQuintiles_large[OF assms(1)] s by simp
  have b: "nat \<lfloor>0.8 * rat_of_nat (length S)\<rfloor> < length xs"
    unfolding idx len using assms(1) by simp
  have c: "calculateQuintiles [-10, -5, 0, 5, 10, 15, 20, 25, 30, 35] = [Fin 0, Fin 10, Fin 20, Fin 30]"
    by code_simp
  from a b c show ?thesis by simp
qed

theorem quintiles_rank_breakpoints_witness:
  "calculateQuintiles [35, -10, 30, -5, 25, 0, 20, 5, 15, 10] = [Fin 0, Fin 10, Fin 20, Fin 30]"
proof -
  let ?S = "[35, -10, 30, -5, 25, 0, 20, 5, 15, 10] :: rat list"
  let ?xs = "[-10, -5, 0, 5, 10, 15, 20, 25, 30, 35] :: rat list"
  have h1: "5 \<le> length ?S" by simp
  have h2: "sorted ?xs" by simp
  have h3: "mset ?xs = mset ?S" by (simp add: ac_simps)
  have i: "nat \<lfloor>0.2 * rat_of_nat (length ?S)\<rfloor> = 2" "nat \<lfloor>0.4 * rat_of_nat (length ?S)\<rfloor> = 4"
          "nat \<lfloor>0.6 * rat_of_nat (length ?S)\<rfloor> = 6" "nat \<lfloor>0.8 * rat_of_nat (length ?S)\<rfloor> = 8"
    by simp_all
  from quintiles_rank_breakpoints[OF h1 h2 h3] show ?thesis
    unfolding i by simp
qed

text \<open>
  Claim C8. \<open>calculateQuintiles\<close> depends only on the multiset of its values: two lists
  that are permutations of each other give the same breakpoints. The function reads no
  state.
\<close>
theorem quintiles_order_independent:
  assumes "mset S = mset S'"
  shows "calculateQuintiles S = calculateQuintiles S'"
proof -
  have "sort S = sort S'" using assms by (rule sort_perm)
  then show ?thesis by (simp add: calculateQuintiles_def)
qed

theorem quintiles_order_independent_witness:
  "calculateQuintiles [3, 1, 2, 5, 4, 6] = calculateQuintiles [6, 5, 4, 3, 2, 1]"
proof -
  have h: "mset [3, 1, 2, 5, 4, 6 :: rat] = mset [6, 5, 4, 3, 2, 1]" by (simp add: ac_simps)
  from quintiles_order_independent[OF h] show ?thesis .
qed

lemma updateLocalQuintiles_small:
  assumes "isLocalMode s" and "1 < length (getVisibleZips vc zipData)" and "length (getVisibleZips vc zipData) < 5"
  shows "\<exists>st lc. updateLocalQuintiles g vc zipData s = (st, Some lc)
           \<and> isSmallSample lc
           \<and> quintiles lc = calculateQuintiles (map zip_p (getVisibleZips vc zipData))
           \<and> currentQuintiles st = calculateQuintiles (map zip_p (getVisibleZips vc zipData))"
  using assms by (simp add: updateLocalQuintiles_def Let_def)

text \<open>
  Claim C2. On a list \<open>S\<close> of two, three or four values, \<open>calculateQuintiles\<close> returns
  \<open>min + range * 0.2\<close>, \<open>min + range * 0.4\<close>, \<open>min + range * 0.6\<close> and
  \<open>min + range * 0.8\<close> for the least and greatest value of \<open>S\<close>, and when \<open>S\<close> is the
  visible selection in local mode \<open>updateLocalQuintiles\<close> passes these breakpoints to
  \<open>updateLegend\<close> with \<open>isSmallSample\<close> set; on 0, 10, 50 the breakpoints are 10, 20, 30, 40.
\<close>
theorem small_sample_interpolated_and_flagged:
  assumes "1 < length S" and "length S < 5"
      and "isLocalMode s" and "map zip_p (getVisibleZips view_contains zipData) = S"
  shows "calculateQuintiles S =
           [Fin (Min (set S) + (Max (set S) - Min (set S)) * 0.2),
            Fin (Min (set S) + (Max (set S) - Min (set S)) * 0.4),
            Fin (Min (set S) + (Max (set S) - Min (set S)) * 0.6),
            Fin (Min (set S) + (Max (set S) - Min (set S)) * 0.8)]
         \<and> (\<exists>st lc. updateLocalQuintiles globalQuintiles view_contains zipData s = (st, Some lc)
                \<and> isSmallSample lc \<and> quintiles lc = calculateQuintiles S)
         \<and> calculateQuintiles [0, 10, 50] = [Fin 10, Fin 20, Fin 30, Fin 40]"
proof -
  have ne: "S \<noteq> []" using assms(1) by auto
  have a: "calculateQuintiles S =
           [Fin (Min (set S) + (Max (set S) - Min (set S)) * 0.2),
            Fin (Min (set S) + (Max (set S) - Min (set S)) * 0.4),
            Fin (Min (set S) + (Max (set S) - Min (set S)) * 0.6),
            Fin (Min (set S) + (Max (set S) - Min (set S)) * 0.8)]"
    by (rule calculateQuintiles_small[OF ne assms(2)])
  have len: "length (getVisibleZips view_contains zipData) = length S"
    using assms(4) by (metis length_map)
  have b: "\<exists>st lc. updateLocalQuintiles globalQuintiles view_contains zipData s = (st, Some lc)
                \<and> isSmallSample lc \<and> quintiles lc = calculateQuintiles S"
    using updateLocalQuintiles_small[of s view_contains zipData globalQuintiles] assms len by auto
  have c: "calculateQuintiles [0, 10, 50] = [Fin 10, Fin 20, Fin 30, Fin 40]"
    by code_simp
  from a b c show ?thesis by blast
qed

theorem small_sample_interpolated_and_flagged_witness:
  "calculateQuintiles [50, 0, 10] = [Fin 10, Fin 20, Fin 30, Fin 40]
   \<and> (\<exists>st lc. updateLocalQuintiles [Fin 1, Fin 2, Fin 3, Fin 4] (\<lambda>pt. 0 \<le> lat pt)
          [\<lparr>zip_z = ''10001'', zip_lat = 40, zip_lon = -74, zip_p = 50, zip_pop = 20000\<rparr>,
           \<lparr>zip_z = ''10002'', zip_lat = 41, zip_lon = -74, zip_p = 0, zip_pop = 9000\<rparr>,
           \<lparr>zip_z = ''99999'', zip_lat = -1, zip_lon = -74, zip_p = 70, zip_pop = 100\<rparr>,
           \<lparr>zip_z = ''10003'', zip_lat = 42, zip_lon = -74, zip_p = 10, zip_pop = 700\<rparr>]
          \<lparr>isLocalMode = True, currentQuintiles = [Fin 1, Fin 2, Fin 3, Fin 4],
           currentMinPop = None, currentMaxPop = None, drawnBoundary = None\<rparr> = (st, Some lc)
        \<and> isSmallSample lc \<and> quintiles lc = [Fin 10, Fin 20, Fin 30, Fin 40])"
proof -
  let ?zd = "[\<lparr>zip_z = ''10001'', zip_lat = 40, zip_lon = -74, zip_p = 50, zip_pop = 20000\<rparr>,
           \<lparr>zip_z = ''10002'', zip_lat = 41, zip_lon = -74, zip_p = 0, zip_pop = 9000\<rparr>,
           \<lparr>zip_z = ''99999'', zip_lat = -1, zip_lon = -74, zip_p = 70, zip_pop = 100\<rparr>,
           \<lparr>zip_z = ''10003'', zip_lat = 42, zip_lon = -74, zip_p = 10, zip_pop = 700\<rparr>]"
  let ?s = "\<lparr>isLocalMode = True, currentQuintiles = [Fin 1, Fin 2, Fin 3, Fin 4],
           currentMinPop = None, currentMaxPop = None, drawnBoundary = None\<rparr>"
  have h1: "1 < length [50, 0, 10 :: rat]" by simp
  have h2: "length [50, 0, 10 :: rat] < 5" by simp
  have h3: "isLocalMode ?s" by simp
  have h4: "map zip_p (getVisibleZips (\<lambda>pt. 0 \<le> lat pt) ?zd) = [50, 0, 10]"
    by (simp add: getVisibleZips_def)
  have m: "Min (set [50, 0, 10 :: rat]) = 0" "Max (set [50, 0, 10 :: rat]) = 50" by simp_all
  note t = small_sample_interpolated_and_flagged[OF h1 h2 h3 h4, of "[Fin 1, Fin 2, Fin 3, Fin 4]"]
  from t have r: "calculateQuintiles [50, 0, 10] = [Fin 10, Fin 20, Fin 30, Fin 40]"
    unfolding m by simp
  from t have f: "\<exists>st lc. updateLocalQuintiles [Fin 1, Fin 2, Fin 3, Fin 4] (\<lambda>pt. 0 \<le> lat pt) ?zd ?s = (st, Some lc)
                \<and> isSmallSample lc \<and> quintiles lc = calculateQuintiles [50, 0, 10]"
    by blast
  from f have f': "\<exists>st lc. updateLocalQuintiles [Fin 1, Fin 2, Fin 3, Fin 4] (\<lambda>pt. 0 \<le> lat pt) ?zd ?s = (st, Some lc)
                \<and> isSmallSample lc \<and> quintiles lc = [Fin 10, Fin 20, Fin 30, Fin 40]"
    unfolding r .
  from r f' show ?thesis by (rule conjI)
qed

section \<open>Properties of the percent change and of the outlier filters\<close>

lemma dropna_mem:
  "r \<in> set rows \<Longrightarrow> latest r = Some l \<Longrightarrow> year_ago r = Some y \<Longrightarrow> (RegionName r, l, y) \<in> set (dropna rows)"
  by (induction rows) (auto split: option.splits)


lemma change_positive_prior:
  "0 < prior \<Longrightarrow> yoy_change cur prior = Fin ((cur - prior) / prior * 100)"
  "0 < prior \<Longrightarrow> price_change_pct cur prior = Fin ((cur - prior) / prior * 100)"
  by (simp_all add: yoy_change_def price_change_pct_def fdiv_def)

text \<open>
  Claim C5. A row whose latest and year-ago cells are both present, with a positive
  year-ago value, gets the change \<open>(current - prior) / prior * 100\<close> in both scripts; from
  100000 to 120000 it is 20, from 100000 to 80000 it is -20.
\<close>
theorem percent_change_formula:
  assumes "r \<in> set rows" and "latest r = Some cur" and "year_ago r = Some prior" and "0 < prior"
  shows "(RegionName r, cur, prior, Fin ((cur - prior) / prior * 100)) \<in> set (yoy_table rows)
       \<and> (RegionName r, cur, prior, Fin ((cur - prior) / prior * 100)) \<in> set (soph_table rows)
       \<and> yoy_change cur prior = Fin ((cur - prior) / prior * 100)
       \<and> price_change_pct cur prior = Fin ((cur - prior) / prior * 100)
       \<and> yoy_change 120000 100000 = Fin 20 \<and> yoy_change 80000 100000 = Fin (-20)
       \<and> price_change_pct 120000 100000 = Fin 20 \<and> price_change_pct 80000 100000 = Fin (-20)"
proof -
  have m: "(RegionName r, cur, prior) \<in> set (dropna rows)"
    using assms(1,2,3) by (rule dropna_mem)
  have a: "(RegionName r, cur, prior, Fin ((cur - prior) / prior * 100)) \<in> set (yoy_table rows)"
    using m change_positive_prior(1)[OF assms(4), of cur] by (force simp: yoy_table_def)
  have b: "(RegionName r, cur, prior, Fin ((cur - prior) / prior * 100)) \<in> set (soph_table rows)"
    using m change_positive_prior(2)[OF assms(4), of cur] by (force simp: soph_table_def)
  have c: "yoy_change 120000 100000 = Fin 20" "yoy_change 80000 100000 = Fin (-20)"
          "price_change_pct 120000 100000 = Fin 20" "price_change_pct 80000 100000 = Fin (-20)"
    by (simp_all add: yoy_change_def price_change_pct_def fdiv_def)
  from a b c change_positive_prior[OF assms(4), of cur] show ?thesis by simp
qed

theorem percent_change_formula_witness:
  "(''10001'', 120000, 100000, Fin 20) \<in> set (yoy_table [\<lparr>RegionName = ''10001'', latest = Some 120000, year_ago = Some 100000\<rparr>])
   \<and> (''10001'', 120000, 100000, Fin 20) \<in> set (soph_table [\<lparr>RegionName = ''10001'', latest = Some 120000, year_ago = Some 100000\<rparr>])"
proof -
  let ?r = "\<lparr>RegionName = ''10001'', latest = Some 120000, year_ago = Some 100000\<rparr>"
  have h1: "?r \<in> set [?r]" by simp
  have h2: "latest ?r = Some 120000" by simp
  have h3: "year_ago ?r = Some 100000" by simp
  have h4: "(0::rat) < 100000" by simp
  from percent_change_formula[OF h1 h2 h3 h4] show ?thesis by simp
qed





text \<open>
  Claim C7 at the bounds of the band. A change of exactly 100 or exactly -50 is dropped
  by create_yoy_map.py, whose filter is strict, and kept by create_sophisticated_map.py;
  create_price_levels.py keeps a price of exactly 10000 or 10000000.
\<close>
theorem yoy_band_excludes_its_bounds:
  "df_yoy [\<lparr>RegionName = ''10001'', latest = Some 200000, year_ago = Some 100000\<rparr>] = []
   \<and> df_analysis [\<lparr>RegionName = ''10001'', latest = Some 200000, year_ago = Some 100000\<rparr>] = [(''10001'', 200000, 100000, Fin 100)]
   \<and> df_yoy [\<lparr>RegionName = ''10001'', latest = Some 50000, year_ago = Some 100000\<rparr>] = []
   \<and> df_analysis [\<lparr>RegionName = ''10001'', latest = Some 50000, year_ago = Some 100000\<rparr>] = [(''10001'', 50000, 100000, Fin (-50))]
   \<and> df_price_levels [\<lparr>RegionName = ''10001'', latest = Some 10000, year_ago = None\<rparr>,
                      \<lparr>RegionName = ''10002'', latest = Some 10000000, year_ago = None\<rparr>]
       = [(''10001'', 10000), (''10002'', 10000000)]"
  by (simp add: df_yoy_def df_analysis_def yoy_table_def soph_table_def yoy_change_def
      price_change_pct_def fdiv_def yoy_outlier_filter_def soph_outlier_filter_def
      df_price_levels_def price_level_filter_def)

section \<open>Properties of the polygon membership test\<close>

lemma exponent_numeral:
  "exponent (numeral k) x =
     (if 2 \<le> x then exponent (pred_numeral k) (x / 2) + 1
      else if x < 1 then exponent (pred_numeral k) (x * 2) - 1
      else 0)"
  by (simp add: numeral_eq_Suc)

lemma floor_rat_numeral:
  "\<lfloor>numeral a / numeral b :: rat\<rfloor> = numeral a div numeral b"
  "\<lfloor>- (numeral a / numeral b) :: rat\<rfloor> = - numeral a div numeral b"
proof -
  show "\<lfloor>numeral a / numeral b :: rat\<rfloor> = numeral a div numeral b"
    using floor_divide_of_int_eq[of "numeral a" "numeral b", where ?'a = rat] by simp
  show "\<lfloor>- (numeral a / numeral b) :: rat\<rfloor> = - numeral a div numeral b"
    using floor_divide_of_int_eq[of "- numeral a" "numeral b", where ?'a = rat] by simp
qed

lemmas double_eval = to_double_def nearest_double_def quantum_def half_even_def Let_def
  exponent_numeral floor_rat_numeral

declare pip_loop.simps [simp del]

lemma pip_loop_done: "length latlngs \<le> i \<Longrightarrow> pip_loop ar point latlngs i j inside = inside"
  by (subst pip_loop.simps) simp

lemma pip_loop_step:
  "i < length latlngs \<Longrightarrow>
   pip_loop ar point latlngs i j inside =
     pip_loop ar point latlngs (i + 1) i
       (if (if (lng (latlngs ! i) > lng point) \<noteq> (lng (latlngs ! j) > lng point)
            then js_less (Fin (lat point))
                   (js_add ar
                      (js_div ar
                         (js_mul ar (js_sub ar (Fin (lat (latlngs ! j))) (Fin (lat (latlngs ! i))))
                                    (js_sub ar (Fin (lng point)) (Fin (lng (latlngs ! i)))))
                         (js_sub ar (Fin (lng (latlngs ! j))) (Fin (lng (latlngs ! i)))))
                      (Fin (lat (latlngs ! i))))
            else False)
        then \<not> inside else inside)"
  by (subst pip_loop.simps) (simp add: Let_def)

lemma pip_empty: "isPointInPolygon ar point [] = False"
  by (simp add: isPointInPolygon_def pip_loop_done)

lemma pip_single: "isPointInPolygon ar point [a] = False"
  by (simp add: isPointInPolygon_def pip_loop_step pip_loop_done)

lemma pip_fewer_than_two:
  assumes "length latlngs < 2"
  shows "isPointInPolygon ar point latlngs = False"
proof -
  from assms consider "latlngs = []" | a where "latlngs = [a]"
    by (cases latlngs; cases "tl latlngs") auto
  then show ?thesis
    by cases (simp_all add: pip_empty pip_single)
qed

lemma js_filter_none:
  "\<forall>x\<in>set xs. f x = Inr False \<Longrightarrow> js_filter f xs = Inr []"
  by (induction xs) auto

lemmas polygon_eval = isPointInPolygon_def pip_loop_step pip_loop_done doubles_def d_sub_def
  double_eval

text \<open>
  Claim C9 as stated fails, in three ways. No vertex list is tested for self-intersection:
  the polygon (0,0), (10,10), (10,0), (0,10) has two crossing edges, and the point (8,5)
  is reported as contained and selected. A polygon of two vertices visits its one edge
  twice, and the two rounded crossing abscissas can differ: the point (35.974, -74.615)
  is reported as contained in the polygon (34.272, -76.243), (47.336, -63.747) and is
  selected. On a polygon without vertices the bounds test of the selection raises.
\<close>

theorem degenerate_polygon_contains_point:
  "segments_cross \<lparr>lat = 0, lng = 0\<rparr> \<lparr>lat = 10, lng = 10\<rparr> \<lparr>lat = 10, lng = 0\<rparr> \<lparr>lat = 0, lng = 10\<rparr>
   \<and> isPointInPolygon doubles \<lparr>lat = 8, lng = 5\<rparr>
        [\<lparr>lat = 0, lng = 0\<rparr>, \<lparr>lat = 10, lng = 10\<rparr>, \<lparr>lat = 10, lng = 0\<rparr>, \<lparr>lat = 0, lng = 10\<rparr>] = True
   \<and> getZipsInBoundary doubles box_contains
        [\<lparr>zip_z = ''10001'', zip_lat = 8, zip_lon = 5, zip_p = 3, zip_pop = 1000\<rparr>]
        (Some (Polygon [\<lparr>lat = 0, lng = 0\<rparr>, \<lparr>lat = 10, lng = 10\<rparr>, \<lparr>lat = 10, lng = 0\<rparr>, \<lparr>lat = 0, lng = 10\<rparr>]))
      = Inr (Some [\<lparr>zip_z = ''10001'', zip_lat = 8, zip_lon = 5, zip_p = 3, zip_pop = 1000\<rparr>])
   \<and> isPointInPolygon doubles \<lparr>lat = nearest_double 35.974, lng = nearest_double (-74.615)\<rparr>
        [\<lparr>lat = nearest_double 34.272, lng = nearest_double (-76.243)\<rparr>,
         \<lparr>lat = nearest_double 47.336, lng = nearest_double (-63.747)\<rparr>] = True
   \<and> getZipsInBoundary doubles box_contains
        [\<lparr>zip_z = ''10002'', zip_lat = nearest_double 35.974, zip_lon = nearest_double (-74.615), zip_p = 3, zip_pop = 1000\<rparr>]
        (Some (Polygon [\<lparr>lat = nearest_double 34.272, lng = nearest_double (-76.243)\<rparr>,
         \<lparr>lat = nearest_double 47.336, lng = nearest_double (-63.747)\<rparr>]))
      = Inr (Some [\<lparr>zip_z = ''10002'', zip_lat = nearest_double 35.974, zip_lon = nearest_double (-74.615), zip_p = 3, zip_pop = 1000\<rparr>])
   \<and> getZipsInBoundary doubles box_contains
        [\<lparr>zip_z = ''10001'', zip_lat = 8, zip_lon = 5, zip_p = 3, zip_pop = 1000\<rparr>]
        (Some (Polygon [])) = Inl TypeError"
proof -
  have a: "segments_cross \<lparr>lat = 0, lng = 0\<rparr> \<lparr>lat = 10, lng = 10\<rparr> \<lparr>lat = 10, lng = 0\<rparr> \<lparr>lat = 0, lng = 10\<rparr>"
    by (simp add: segments_cross_def orient_def)
  have b: "isPointInPolygon doubles \<lparr>lat = 8, lng = 5\<rparr>
        [\<lparr>lat = 0, lng = 0\<rparr>, \<lparr>lat = 10, lng = 10\<rparr>, \<lparr>lat = 10, lng = 0\<rparr>, \<lparr>lat = 0, lng = 10\<rparr>] = True"
    by (simp add: polygon_eval)
  have b': "getZipsInBoundary doubles box_contains
        [\<lparr>zip_z = ''10001'', zip_lat = 8, zip_lon = 5, zip_p = 3, zip_pop = 1000\<rparr>]
        (Some (Polygon [\<lparr>lat = 0, lng = 0\<rparr>, \<lparr>lat = 10, lng = 10\<rparr>, \<lparr>lat = 10, lng = 0\<rparr>, \<lparr>lat = 0, lng = 10\<rparr>]))
      = Inr (Some [\<lparr>zip_z = ''10001'', zip_lat = 8, zip_lon = 5, zip_p = 3, zip_pop = 1000\<rparr>])"
    using b by (simp add: getZipsInBoundary_def box_contains_def)
  have c: "isPointInPolygon doubles \<lparr>lat = nearest_double 35.974, lng = nearest_double (-74.615)\<rparr>
        [\<lparr>lat = nearest_double 34.272, lng = nearest_double (-76.243)\<rparr>,
         \<lparr>lat = nearest_double 47.336, lng = nearest_double (-63.747)\<rparr>] = True"
    by (simp add: polygon_eval)
  have c': "getZipsInBoundary doubles box_contains
        [\<lparr>zip_z = ''10002'', zip_lat = nearest_double 35.974, zip_lon = nearest_double (-74.615), zip_p = 3, zip_pop = 1000\<rparr>]
        (Some (Polygon [\<lparr>lat = nearest_double 34.272, lng = nearest_double (-76.243)\<rparr>,
         \<lparr>lat = nearest_double 47.336, lng = nearest_double (-63.747)\<rparr>]))
      = Inr (Some [\<lparr>zip_z = ''10002'', zip_lat = nearest_double 35.974, zip_lon = nearest_double (-74.615), zip_p = 3, zip_pop = 1000\<rparr>])"
    using c by (simp add: getZipsInBoundary_def box_contains_def double_eval)
  have d: "getZipsInBoundary doubles box_contains
        [\<lparr>zip_z = ''10001'', zip_lat = 8, zip_lon = 5, zip_p = 3, zip_pop = 1000\<rparr>]
        (Some (Polygon [])) = Inl TypeError"
    by (simp add: getZipsInBoundary_def box_contains_def)
  from a b b' c c' d show ?thesis by blast
qed

text \<open>
  Claim C9, amended. For every point and every polygon with fewer than two vertices the
  membership test reports the point as not contained, whatever the arithmetic returns,
  and the boundary selection is empty whenever the bounds test before it raises no
  error. The test is a total function: no vertex list makes it fail.
\<close>

theorem fewer_than_two_vertices_not_contained:
  assumes "length latlngs < 2"
      and "\<forall>zp\<in>set zipData. bounds_contains (Polygon latlngs) \<lparr>lat = zip_lat zp, lng = zip_lon zp\<rparr> \<noteq> Inl TypeError"
  shows "isPointInPolygon ar point latlngs = False
       \<and> getZipsInBoundary ar bounds_contains zipData (Some (Polygon latlngs)) = Inr (Some [])"
proof -
  have a: "\<And>pt. isPointInPolygon ar pt latlngs = False"
    using assms(1) by (rule pip_fewer_than_two)
  have "\<forall>zp\<in>set zipData.
          (case bounds_contains (Polygon latlngs) \<lparr>lat = zip_lat zp, lng = zip_lon zp\<rparr> of
             Inl e \<Rightarrow> Inl e
           | Inr b \<Rightarrow> if \<not> b then Inr False
                      else Inr (isPointInPolygon ar \<lparr>lat = zip_lat zp, lng = zip_lon zp\<rparr> latlngs))
          = Inr False"
  proof
    fix zp assume "zp \<in> set zipData"
    with assms(2) have "bounds_contains (Polygon latlngs) \<lparr>lat = zip_lat zp, lng = zip_lon zp\<rparr> \<noteq> Inl TypeError"
      by blast
    then obtain b where "bounds_contains (Polygon latlngs) \<lparr>lat = zip_lat zp, lng = zip_lon zp\<rparr> = Inr b"
      by (metis js_error.exhaust sum.exhaust)
    then show "(case bounds_contains (Polygon latlngs) \<lparr>lat = zip_lat zp, lng = zip_lon zp\<rparr> of
             Inl e \<Rightarrow> Inl e
           | Inr b \<Rightarrow> if \<not> b then Inr False
                      else Inr (isPointInPolygon ar \<lparr>lat = zip_lat zp, lng = zip_lon zp\<rparr> latlngs))
          = Inr False"
      using a by simp
  qed
  then have "getZipsInBoundary ar bounds_contains zipData (Some (Polygon latlngs)) = Inr (Some [])"
    by (simp add: getZipsInBoundary_def Let_def js_filter_none)
  with a show ?thesis by simp
qed

theorem fewer_than_two_vertices_not_contained_witness:
  "isPointInPolygon doubles \<lparr>lat = 3, lng = 4\<rparr> [\<lparr>lat = 3, lng = 4\<rparr>] = False
   \<and> getZipsInBoundary doubles box_contains
        [\<lparr>zip_z = ''10001'', zip_lat = 3, zip_lon = 4, zip_p = 3, zip_pop = 1000\<rparr>]
        (Some (Polygon [\<lparr>lat = 3, lng = 4\<rparr>])) = Inr (Some [])"
proof -
  have h1: "length [\<lparr>lat = 3, lng = 4\<rparr>] < 2" by simp
  have h2: "\<forall>zp\<in>set [\<lparr>zip_z = ''10001'', zip_lat = 3, zip_lon = 4, zip_p = 3, zip_pop = 1000\<rparr>].
              box_contains (Polygon [\<lparr>lat = 3, lng = 4\<rparr>]) \<lparr>lat = zip_lat zp, lng = zip_lon zp\<rparr> \<noteq> Inl TypeError"
    by (simp add: box_contains_def)
  from fewer_than_two_vertices_not_contained[where latlngs = "[\<lparr>lat = 3, lng = 4\<rparr>]"
      and zipData = "[\<lparr>zip_z = ''10001'', zip_lat = 3, zip_lon = 4, zip_p = 3, zip_pop = 1000\<rparr>]"
      and bounds_contains = box_contains and ar = doubles and point = "\<lparr>lat = 3, lng = 4\<rparr>", OF h1 h2]
  show ?thesis .
qed

end
